theory Spec2Isabelle
  imports Main "HOL-Library.Word" "HOL-Library.Multiset" "HOL-Library.Sublist"
begin

unbundle bit_operations_syntax

section \<open>Shared data: addresses, ports, errors\<close>

text \<open>
  A \<^verbatim>\<open>netip.Addr\<close> is the list of its bytes (4 for IPv4, 16 for IPv6, none for the
  zero value); a \<^verbatim>\<open>netip.AddrPort\<close> pairs it with a 16-bit port.
\<close>

type_synonym byte = "8 word"
type_synonym Addr = "byte list"
type_synonym AddrPort = "Addr \<times> 16 word"

definition zeroAddrPort :: AddrPort where
  "zeroAddrPort = ([], 0)"

text \<open>
  Go errors. \<^verbatim>\<open>Errno\<close> is a raw \<^verbatim>\<open>syscall.Errno\<close>; \<^verbatim>\<open>OpError\<close> is a wrapper
  (\<^verbatim>\<open>*net.OpError\<close>, \<^verbatim>\<open>os.SyscallError\<close>, \<^verbatim>\<open>errors.WithStack\<close>) around another error;
  the remaining constructors are the errors the repository creates itself.
\<close>

datatype error =
    Errno nat
  | OpError string error
  | ErrNotUsedPort "16 word"
  | ErrInvalidPacket int
  | ErrLoopback
  | ErrMsg string
  | EOF

definition EADDRINUSE :: error where
  "EADDRINUSE = Errno 98"

text \<open>
  How a call ends: it returns (\<open>Done\<close>), it panics, or it stays blocked for ever on a
  read, a lock or a condition variable.
\<close>

datatype 'a progress = Blocked | Panic string | Done 'a

text \<open>\<^verbatim>\<open>errors.Is\<close>: the error itself or anything it wraps equals the target.\<close>

fun errors_Is :: "error \<Rightarrow> error \<Rightarrow> bool" where
  "errors_Is (OpError op inner) target =
     (OpError op inner = target \<or> errors_Is inner target)"
| "errors_Is e target = (e = target)"

section \<open>Local port guard: \<^verbatim>\<open>ListenLocal\<close>\<close>

text \<open>
  The kernel socket behind a \<^verbatim>\<open>*net.TCPListener\<close>: the port it is bound to, whether the
  always-reject filter \<^verbatim>\<open>[RetConstant 0]\<close> is attached, whether it has been closed.
\<close>

record TCPListener =
  bound_port :: "16 word"
  reject_filter :: bool
  closed :: bool

text \<open>
  The outcomes of the system calls made by \<^verbatim>\<open>ListenLocal\<close>, in the order it makes them:
  \<^verbatim>\<open>net.ListenTCP\<close>, \<^verbatim>\<open>l.SyscallConn\<close>, \<^verbatim>\<open>raw.Control\<close> (an error here means the callback
  did not run), and inside the callback \<^verbatim>\<open>bpf.Assemble\<close> and \<^verbatim>\<open>SetsockoptSockFprog\<close>.
\<close>

record listen_env =
  net_ListenTCP :: "error + TCPListener"
  SyscallConn_err :: "error option"
  Control_err :: "error option"
  Assemble_err :: "error option"
  Setsockopt_err :: "error option"

text \<open>
  The three results of the Go function (listener, address, error) and, fourth, the state in
  which the call leaves the socket it opened, if it opened one.
\<close>

type_synonym listen_result =
  "TCPListener option \<times> AddrPort \<times> error option \<times> TCPListener option"

definition ListenLocal :: "listen_env \<Rightarrow> AddrPort \<Rightarrow> bool \<Rightarrow> listen_result" where
  "ListenLocal env laddr usedPort =
     (case net_ListenTCP env of
        Inl err \<Rightarrow>
          if usedPort \<and> errors_Is err EADDRINUSE then (None, laddr, None, None)
          else (None, zeroAddrPort, Some err, None)
      | Inr l \<Rightarrow>
          if usedPort then (None, zeroAddrPort, Some (OpError ''stack'' (ErrNotUsedPort (snd laddr))), Some l)
          else
            (case SyscallConn_err env of
               Some err \<Rightarrow> (None, zeroAddrPort, Some err, Some (l\<lparr>closed := True\<rparr>))
             | None \<Rightarrow>
                 let e = (case Control_err env of
                            Some _ \<Rightarrow> None
                          | None \<Rightarrow>
                              (case Assemble_err env of
                                 Some e1 \<Rightarrow> Some e1
                               | None \<Rightarrow> Setsockopt_err env));
                     l' = (if Control_err env = None \<and> e = None
                           then l\<lparr>reject_filter := True\<rparr> else l)
                 in (case e of
                       Some e' \<Rightarrow> (None, zeroAddrPort, Some e', Some (l'\<lparr>closed := True\<rparr>))
                     | None \<Rightarrow>
                         (case Control_err env of
                            Some err \<Rightarrow> (None, zeroAddrPort, Some err, Some (l'\<lparr>closed := True\<rparr>))
                          | None \<Rightarrow>
                              (Some l', (fst laddr, bound_port l'), None, Some l')))))"

text \<open>
  C7. With the port declared expected-already-reserved, a bind failing with address-in-use
  is a success that returns the caller's address, and a fresh successful bind is the
  NotReservedPort error; every other bind failure is returned to the caller.
\<close>

theorem ListenLocal_bind_outcome:
  "(usedPort \<and> net_ListenTCP env = Inl err \<and> errors_Is err EADDRINUSE \<longrightarrow>
      ListenLocal env laddr usedPort = (None, laddr, None, None))
   \<and> (usedPort \<and> net_ListenTCP env = Inr l \<longrightarrow>
      fst (snd (snd (ListenLocal env laddr usedPort)))
        = Some (OpError ''stack'' (ErrNotUsedPort (snd laddr))))
   \<and> (net_ListenTCP env = Inl err \<and> \<not> (usedPort \<and> errors_Is err EADDRINUSE) \<longrightarrow>
      fst (snd (snd (ListenLocal env laddr usedPort))) = Some err)"
  by (simp add: ListenLocal_def)

definition env_in_use :: listen_env where
  "env_in_use = \<lparr>net_ListenTCP = Inl (OpError ''listen'' (OpError ''bind'' EADDRINUSE)),
     SyscallConn_err = None, Control_err = None, Assemble_err = None, Setsockopt_err = None\<rparr>"

definition env_fresh :: listen_env where
  "env_fresh = \<lparr>net_ListenTCP = Inr \<lparr>bound_port = 8080, reject_filter = False, closed = False\<rparr>,
     SyscallConn_err = None, Control_err = None, Assemble_err = None, Setsockopt_err = None\<rparr>"

definition env_denied :: listen_env where
  "env_denied = \<lparr>net_ListenTCP = Inl (OpError ''listen'' (OpError ''bind'' (Errno 13))),
     SyscallConn_err = None, Control_err = None, Assemble_err = None, Setsockopt_err = None\<rparr>"

theorem ListenLocal_bind_outcome_witness:
  "errors_Is (OpError ''listen'' (OpError ''bind'' EADDRINUSE)) EADDRINUSE
   \<and> ListenLocal env_in_use ([10, 0, 0, 1], 8080) True = (None, ([10, 0, 0, 1], 8080), None, None)
   \<and> fst (snd (snd (ListenLocal env_fresh ([10, 0, 0, 1], 8080) True)))
       = Some (OpError ''stack'' (ErrNotUsedPort 8080))
   \<and> \<not> errors_Is (OpError ''listen'' (OpError ''bind'' (Errno 13))) EADDRINUSE
   \<and> fst (snd (snd (ListenLocal env_denied ([10, 0, 0, 1], 8080) True)))
       = Some (OpError ''listen'' (OpError ''bind'' (Errno 13)))"
  using ListenLocal_bind_outcome [where usedPort = True and env = env_in_use
          and err = "OpError ''listen'' (OpError ''bind'' EADDRINUSE)"
          and laddr = "([10, 0, 0, 1], 8080)"]
        ListenLocal_bind_outcome [where usedPort = True and env = env_fresh
          and l = "\<lparr>bound_port = 8080, reject_filter = False, closed = False\<rparr>"
          and laddr = "([10, 0, 0, 1], 8080)"]
        ListenLocal_bind_outcome [where usedPort = True and env = env_denied
          and err = "OpError ''listen'' (OpError ''bind'' (Errno 13))"
          and laddr = "([10, 0, 0, 1], 8080)"]
  by (simp add: env_in_use_def env_fresh_def env_denied_def EADDRINUSE_def)

section \<open>Kernel packet filter compiler\<close>

text \<open>
  The instructions of \<^verbatim>\<open>golang.org/x/net/bpf\<close> that the repository emits, and the classic
  BPF machine that runs them: accumulator \<open>a\<close> and index register \<open>x\<close> (32 bits, zero at the
  start), jumps that only skip forward, a load outside the packet ending the run with
  verdict 0. The verdict is the number of bytes to keep; 0 rejects the packet.
\<close>

datatype Register = RegA | RegX
datatype ALUOp = ALUOpAnd | ALUOpShiftRight
datatype JumpTest = JumpEqual | JumpNotEqual

datatype Instruction =
    LoadAbsolute nat nat
  | LoadIndirect nat nat
  | LoadMemShift nat
  | LoadConstant Register "32 word"
  | ALUOpConstant ALUOp "32 word"
  | JumpIf JumpTest "32 word" nat nat
  | RetConstant "32 word"

definition loadCommon :: "byte list \<Rightarrow> nat \<Rightarrow> nat \<Rightarrow> 32 word option" where
  "loadCommon pkt offset sz =
     (if offset + sz \<le> length pkt then
        (if sz = 1 then Some (ucast (pkt ! offset))
         else if sz = 2 then
           Some (ucast (word_cat (pkt ! offset) (pkt ! (offset + 1)) :: 16 word))
         else None)
      else None)"

definition aluOpConstant :: "ALUOp \<Rightarrow> 32 word \<Rightarrow> 32 word \<Rightarrow> 32 word" where
  "aluOpConstant op a v =
     (case op of ALUOpAnd \<Rightarrow> a AND v | ALUOpShiftRight \<Rightarrow> drop_bit (unat v) a)"

definition jumpIf :: "JumpTest \<Rightarrow> 32 word \<Rightarrow> 32 word \<Rightarrow> bool" where
  "jumpIf c a v = (case c of JumpEqual \<Rightarrow> a = v | JumpNotEqual \<Rightarrow> a \<noteq> v)"

fun run :: "Instruction list \<Rightarrow> 32 word \<Rightarrow> 32 word \<Rightarrow> byte list \<Rightarrow> 32 word" where
  "run [] a x pkt = 0"
| "run (LoadAbsolute off sz # ins) a x pkt =
     (case loadCommon pkt off sz of None \<Rightarrow> 0 | Some v \<Rightarrow> run ins v x pkt)"
| "run (LoadIndirect off sz # ins) a x pkt =
     (case loadCommon pkt (off + unat x) sz of None \<Rightarrow> 0 | Some v \<Rightarrow> run ins v x pkt)"
| "run (LoadMemShift off # ins) a x pkt =
     (if off < length pkt then run ins a (4 * (ucast (pkt ! off) AND 0xf)) pkt else 0)"
| "run (LoadConstant RegA v # ins) a x pkt = run ins v x pkt"
| "run (LoadConstant RegX v # ins) a x pkt = run ins a v pkt"
| "run (ALUOpConstant op v # ins) a x pkt = run ins (aluOpConstant op a v) x pkt"
| "run (JumpIf c v skipTrue skipFalse # ins) a x pkt =
     (if jumpIf c a v then run (drop skipTrue ins) a x pkt else run (drop skipFalse ins) a x pkt)"
| "run (RetConstant v # ins) a x pkt = v"

text \<open>Field offsets and flag bits of \<^verbatim>\<open>gvisor.dev/gvisor/pkg/tcpip/header\<close>.\<close>

definition TCPDstPortOffset :: nat where "TCPDstPortOffset = 2"
definition TCPFlagsOffset :: nat where "TCPFlagsOffset = 13"
definition TCPFlagSyn :: byte where "TCPFlagSyn = 2"
definition TCPFlagAck :: byte where "TCPFlagAck = 16"

text \<open>\<^verbatim>\<open>ipHeaderLen\<close> stores the IP header length in register X.\<close>

definition ipHeaderLen :: "Instruction list" where
  "ipHeaderLen =
     [LoadAbsolute 0 1,
      ALUOpConstant ALUOpShiftRight 4,
      JumpIf JumpNotEqual 4 1 0,
      LoadMemShift 0,
      JumpIf JumpNotEqual 6 1 0,
      LoadConstant RegX 40]"

definition FilterDstPortAndSynFlag :: "16 word \<Rightarrow> Instruction list" where
  "FilterDstPortAndSynFlag port =
     (let syn = (ucast TCPFlagSyn :: 32 word) in
      ipHeaderLen @
      [LoadIndirect TCPDstPortOffset 2,
       JumpIf JumpEqual (ucast port) 1 0,
       RetConstant 0,
       LoadIndirect TCPFlagsOffset 1,
       ALUOpConstant ALUOpAnd syn,
       JumpIf JumpEqual syn 1 0,
       RetConstant 0,
       RetConstant 0xffff])"

text \<open>
  What the filter is measured against: the header fields of a captured IP packet as the
  \<^verbatim>\<open>header\<close> package reads them (version nibble, IPv4 IHL in 32-bit words or the fixed 40
  bytes of IPv6, TCP destination port and flags byte behind the network header).
\<close>

definition IPVersion :: "byte list \<Rightarrow> nat" where
  "IPVersion pkt = unat (drop_bit 4 (pkt ! 0))"

definition networkHeaderLen :: "byte list \<Rightarrow> nat" where
  "networkHeaderLen pkt = (if IPVersion pkt = 4 then 4 * unat (pkt ! 0 AND 0xf) else 40)"

definition DestinationPort :: "byte list \<Rightarrow> 16 word" where
  "DestinationPort pkt =
     word_cat (pkt ! (networkHeaderLen pkt + 2)) (pkt ! (networkHeaderLen pkt + 3))"

definition Flags :: "byte list \<Rightarrow> byte" where
  "Flags pkt = pkt ! (networkHeaderLen pkt + 13)"

definition synack_to_80 :: "byte list" where
  "synack_to_80 =
     [0x45, 0, 0, 40, 0, 0, 0, 0, 64, 6, 0, 0, 10, 0, 0, 1, 10, 0, 0, 2,
      0x30, 0x39, 0, 80, 0, 0, 0, 1, 0, 0, 0, 0, 0x50, 0x12, 0xff, 0xff, 0, 0, 0, 0]"

subsection \<open>Register arithmetic\<close>

lemma unat_ucast_byte: "unat (ucast (b::byte) :: 32 word) = unat b"
proof -
  have "unat b < 2 ^ 8" using unsigned_less [of b] by simp
  then have "unat b < 2 ^ 32" by simp
  then show ?thesis by (simp add: unsigned_ucast_eq take_bit_nat_eq_self)
qed

lemma ucast_port_eq_iff: "((ucast (a::16 word) :: 32 word) = ucast b) = (a = b)"
proof
  assume "(ucast a :: 32 word) = ucast b"
  then have "(ucast (ucast a :: 32 word) :: 16 word) = ucast (ucast b :: 32 word)" by simp
  then show "a = b" by (simp add: ucast_up_ucast_id is_up)
qed simp

lemma version4_reg: "((drop_bit 4 (ucast (b::byte)) :: 32 word) = 4) = (unat (drop_bit 4 b) = 4)"
  by (simp add: word_eq_iff_unsigned [where ?'a = nat] unat_drop_bit_eq unat_ucast_byte)

lemma version6_reg: "((drop_bit 4 (ucast (b::byte)) :: 32 word) = 6) = (unat (drop_bit 4 b) = 6)"
  by (simp add: word_eq_iff_unsigned [where ?'a = nat] unat_drop_bit_eq unat_ucast_byte)

lemma and_exp_eq_exp_iff_bit: "n < 32 \<Longrightarrow> ((w :: 32 word) AND 2 ^ n = 2 ^ n) = bit w n"
  by (auto simp: bit_eq_iff [where ?'a = "32 word"] bit_simps)

lemma syn_reg_iff_bit: "((ucast (f::byte) :: 32 word) AND 2 = 2) = bit f 1"
  using and_exp_eq_exp_iff_bit [of 1 "ucast f"] by (simp add: bit_simps)

lemma syn_flag_iff_bit: "((f::byte) AND 2 \<noteq> 0) = bit f 1"
  using and_exp_eq_0_iff_not_bit [of f 1] by simp

lemma unat_ucast_low_nibble: "unat ((ucast (b::byte) :: 32 word) AND 0xf) = unat (b AND 0xf)"
proof -
  have m: "(0xf :: 32 word) = mask 4" "(0xf :: byte) = mask 4"
    by (simp_all add: mask_eq_exp_minus_1)
  have "(ucast b :: 32 word) AND mask 4 = ucast (b AND mask 4)"
    by (auto simp: bit_eq_iff [where ?'a = "32 word"] bit_simps)
  then show ?thesis by (simp add: unat_ucast_byte m)
qed

lemma unat_low_nibble_less: "unat ((b::byte) AND 0xf) < 16"
proof -
  have "b AND 0xf \<le> 0xf" by (rule word_and_le1)
  then show ?thesis by (simp add: word_le_nat_alt)
qed

lemma unat_ihl_times4: "unat (4 * (ucast (b::byte) AND 0xf) :: 32 word) = 4 * unat (b AND 0xf)"
proof -
  have "unat (4 :: 32 word) * unat ((ucast b :: 32 word) AND 0xf) < 2 ^ LENGTH(32)"
    using unat_low_nibble_less [of b] by (simp add: unat_ucast_low_nibble)
  then have "unat (4 * ((ucast b :: 32 word) AND 0xf)) = unat (4 :: 32 word) * unat ((ucast b :: 32 word) AND 0xf)"
    by (simp only: unat_mult_lem)
  then show ?thesis by (simp add: unat_ucast_low_nibble)
qed

lemma run_ipHeaderLen_v4:
  assumes "0 < length pkt" and "IPVersion pkt = 4"
  shows "run (ipHeaderLen @ rest) a x pkt = run rest 4 (4 * (ucast (pkt ! 0) AND 0xf)) pkt"
proof -
  have A: "drop_bit 4 (ucast (pkt ! 0) :: 32 word) = 4"
    using assms(2) by (simp add: version4_reg IPVersion_def)
  have ld: "loadCommon pkt 0 (Suc 0) = Some (ucast (pkt ! 0))"
    using assms(1) by (cases pkt) (simp_all add: loadCommon_def)
  have lt: "pkt \<noteq> []" using assms(1) by simp
  show ?thesis
    by (simp add: ipHeaderLen_def ld aluOpConstant_def jumpIf_def A lt)
qed

lemma run_ipHeaderLen_v6:
  assumes "0 < length pkt" and "IPVersion pkt = 6"
  shows "run (ipHeaderLen @ rest) a x pkt = run rest 6 40 pkt"
proof -
  have A: "drop_bit 4 (ucast (pkt ! 0) :: 32 word) = 6"
    using assms(2) by (simp add: version6_reg IPVersion_def)
  have ld: "loadCommon pkt 0 (Suc 0) = Some (ucast (pkt ! 0))"
    using assms(1) by (cases pkt) (simp_all add: loadCommon_def)
  show ?thesis
    by (simp add: ipHeaderLen_def ld aluOpConstant_def jumpIf_def A)
qed

lemma run_port_and_syn:
  assumes x: "unat x = h" and len: "h + 14 \<le> length pkt"
  shows "run [LoadIndirect 2 2, JumpIf JumpEqual (ucast port) 1 0, RetConstant 0,
              LoadIndirect 13 1, ALUOpConstant ALUOpAnd 2, JumpIf JumpEqual 2 1 0,
              RetConstant 0, RetConstant 0xffff] a x pkt =
           (if (word_cat (pkt ! (h + 2)) (pkt ! (h + 3)) :: 16 word) = port \<and> pkt ! (h + 13) AND 2 \<noteq> 0
            then 0xffff else 0)"
  using x len
  by (simp add: loadCommon_def jumpIf_def aluOpConstant_def ucast_port_eq_iff syn_reg_iff_bit syn_flag_iff_bit numeral_3_eq_3 add.commute)

text \<open>
  C9. On a captured IPv4 or IPv6 packet that holds the TCP header up to the flags byte,
  \<^verbatim>\<open>FilterDstPortAndSynFlag port\<close> accepts exactly when the destination port is \<open>port\<close> and
  the SYN bit is set: no other flag bit is looked at, so a SYN-ACK to that port passes.
\<close>

theorem FilterDstPortAndSynFlag_accepts:
  assumes ver: "IPVersion pkt = 4 \<or> IPVersion pkt = 6"
    and len: "networkHeaderLen pkt + 14 \<le> length pkt"
  shows "run (FilterDstPortAndSynFlag port) 0 0 pkt =
           (if DestinationPort pkt = port \<and> Flags pkt AND TCPFlagSyn \<noteq> 0 then 0xffff else 0)"
proof -
  have one: "0 < length pkt" using len by auto
  have prog: "FilterDstPortAndSynFlag port = ipHeaderLen @
      [LoadIndirect 2 2, JumpIf JumpEqual (ucast port) 1 0, RetConstant 0,
       LoadIndirect 13 1, ALUOpConstant ALUOpAnd 2, JumpIf JumpEqual 2 1 0,
       RetConstant 0, RetConstant 0xffff]"
    by (simp add: FilterDstPortAndSynFlag_def TCPDstPortOffset_def TCPFlagsOffset_def TCPFlagSyn_def)
  from ver show ?thesis
  proof
    assume v4: "IPVersion pkt = 4"
    have hl: "unat (4 * (ucast (pkt ! 0) AND 0xf) :: 32 word) = networkHeaderLen pkt"
      using v4 by (simp add: networkHeaderLen_def unat_ihl_times4)
    show ?thesis
      unfolding prog run_ipHeaderLen_v4 [OF one v4] run_port_and_syn [OF hl len]
      by (simp add: DestinationPort_def Flags_def TCPFlagSyn_def)
  next
    assume v6: "IPVersion pkt = 6"
    have hl: "unat (40 :: 32 word) = networkHeaderLen pkt"
      using v6 by (simp add: networkHeaderLen_def)
    show ?thesis
      unfolding prog run_ipHeaderLen_v6 [OF one v6] run_port_and_syn [OF hl len]
      by (simp add: DestinationPort_def Flags_def TCPFlagSyn_def)
  qed
qed

theorem FilterDstPortAndSynFlag_accepts_witness:
  "(IPVersion synack_to_80 = 4 \<or> IPVersion synack_to_80 = 6)
   \<and> networkHeaderLen synack_to_80 + 14 \<le> length synack_to_80
   \<and> DestinationPort synack_to_80 = 80
   \<and> Flags synack_to_80 = TCPFlagSyn OR TCPFlagAck
   \<and> run (FilterDstPortAndSynFlag 80) 0 0 synack_to_80 = 0xffff"
  using FilterDstPortAndSynFlag_accepts [of synack_to_80 80]
  by (simp add: synack_to_80_def IPVersion_def networkHeaderLen_def DestinationPort_def
      Flags_def TCPFlagSyn_def TCPFlagAck_def)

section \<open>Embedded TCP protocol engine\<close>

text \<open>
  The hosted endpoint belongs to gVisor; the model takes what its calls return as inputs.
  The \<^verbatim>\<open>tcpip.Error\<close> values are those the engine tells apart and a few others, with
  their \<^verbatim>\<open>String()\<close>.
\<close>

datatype tcpip_Error =
    ErrWouldBlock
  | ErrClosedForReceive
  | ErrClosedForSend
  | ErrConnectStarted
  | ErrConnectionRefused
  | ErrPortInUse
  | ErrInvalidEndpointState

fun tcpip_String :: "tcpip_Error \<Rightarrow> string" where
  "tcpip_String ErrWouldBlock = ''operation would block''"
| "tcpip_String ErrClosedForReceive = ''endpoint is closed for receive''"
| "tcpip_String ErrClosedForSend = ''endpoint is closed for send''"
| "tcpip_String ErrConnectStarted = ''connection attempt started''"
| "tcpip_String ErrConnectionRefused = ''connection was refused''"
| "tcpip_String ErrPortInUse = ''port is in use''"
| "tcpip_String ErrInvalidEndpointState = ''endpoint is in invalid state''"

text \<open>
  The engine's own state: the \<^verbatim>\<open>inited\<close> flag, the stored \<^verbatim>\<open>initErr\<close>, how many times
  \<^verbatim>\<open>initTrigger.Broadcast()\<close> has run, and whether the engine has closed its endpoint.
\<close>

record TCPStackGvisor =
  inited :: bool
  initErr :: "error option"
  broadcasts :: nat
  ep_closed :: bool

definition NewTCPStackGvisor :: TCPStackGvisor where
  "NewTCPStackGvisor = \<lparr>inited = False, initErr = None, broadcasts = 0, ep_closed = False\<rparr>"

text \<open>What the endpoint answers to the setup calls.\<close>

record stack_env =
  NewEndpoint_err :: "tcpip_Error option"
  Bind_err :: "tcpip_Error option"
  Listen_err :: "tcpip_Error option"
  Connect_err :: "tcpip_Error option"
  LastError :: "tcpip_Error option"

definition initBase :: "stack_env \<Rightarrow> error option" where
  "initBase env =
     (case NewEndpoint_err env of
        Some err \<Rightarrow> Some (OpError ''new endpoint'' (ErrMsg (tcpip_String err)))
      | None \<Rightarrow>
          (case Bind_err env of
             Some err \<Rightarrow> Some (OpError ''bind'' (ErrMsg (tcpip_String err)))
           | None \<Rightarrow> None))"

text \<open>
  \<^verbatim>\<open>initConnect\<close> and \<^verbatim>\<open>initAccept\<close> run as goroutines; each is modelled by its effect on
  the engine state once it has finished. On failure both store \<^verbatim>\<open>initErr\<close> and return
  before the broadcast.
\<close>

definition initConnect :: "stack_env \<Rightarrow> TCPStackGvisor \<Rightarrow> TCPStackGvisor" where
  "initConnect env s =
     (let e = (if Connect_err env = Some ErrConnectStarted then LastError env
               else Connect_err env)
      in case e of
           Some e' \<Rightarrow>
             s\<lparr>ep_closed := True,
               initErr := Some (OpError ''connect'' (ErrMsg (tcpip_String e')))\<rparr>
         | None \<Rightarrow> s\<lparr>broadcasts := broadcasts s + 1\<rparr>)"

definition initAccept :: "stack_env \<Rightarrow> TCPStackGvisor \<Rightarrow> TCPStackGvisor" where
  "initAccept env s =
     (case Listen_err env of
        Some err \<Rightarrow> s\<lparr>initErr := Some (OpError ''listen'' (ErrMsg (tcpip_String err)))\<rparr>
      | None \<Rightarrow> s\<lparr>broadcasts := broadcasts s + 1\<rparr>)"

text \<open>
  \<^verbatim>\<open>RecvRaw\<close> and \<^verbatim>\<open>SendRaw\<close>: the first of them wins the compare-and-swap on
  \<^verbatim>\<open>inited\<close> and commits the role. \<open>rawCh\<close> is the segment the hosted stack emits next, if
  any. The state returned is the one reached when the goroutine started here has finished.
\<close>

definition RecvRaw ::
  "stack_env \<Rightarrow> byte list option \<Rightarrow> TCPStackGvisor
     \<Rightarrow> (byte list option \<times> error option) progress \<times> TCPStackGvisor" where
  "RecvRaw env rawCh s =
     (if \<not> inited s then
        (let s1 = s\<lparr>inited := True, initErr := initBase env\<rparr>
         in if initErr s1 \<noteq> None then (Done (None, initErr s1), s1)
            else (case rawCh of None \<Rightarrow> Blocked | Some b \<Rightarrow> Done (Some b, None),
                  initConnect env s1))
      else (case rawCh of None \<Rightarrow> Blocked | Some b \<Rightarrow> Done (Some b, None), s))"

definition SendRaw ::
  "stack_env \<Rightarrow> byte list \<Rightarrow> TCPStackGvisor
     \<Rightarrow> (int \<times> error option) progress \<times> TCPStackGvisor" where
  "SendRaw env h s =
     (if \<not> inited s then
        (let s1 = s\<lparr>inited := True, initErr := initBase env\<rparr>
         in if initErr s1 \<noteq> None then (Done (0, initErr s1), s1)
            else (Done (int (length h), None), initAccept env s1))
      else (Done (int (length h), None), s))"

text \<open>
  \<^verbatim>\<open>SendSeg\<close> and \<^verbatim>\<open>RecvSeg\<close> start with
  \<^verbatim>\<open>if !s.inited.Load() { s.mu.Lock(); s.initTrigger.Wait(); s.mu.Unlock() }\<close>.
  A caller that enters in state \<open>s\<close> gets past this gate when \<^verbatim>\<open>inited\<close> is already set,
  or when a broadcast happens after it started to wait; \<open>s'\<close> is the state the engine
  reaches in the end.
\<close>

definition passes_init_gate :: "TCPStackGvisor \<Rightarrow> TCPStackGvisor \<Rightarrow> bool" where
  "passes_init_gate s s' = (inited s \<or> broadcasts s < broadcasts s')"

definition SendSeg ::
  "TCPStackGvisor \<Rightarrow> TCPStackGvisor \<Rightarrow> tcpip_Error + int \<Rightarrow> (int \<times> error option) progress" where
  "SendSeg s s' ep_Write =
     (if \<not> passes_init_gate s s' then Blocked
      else (case ep_Write of
              Inl e \<Rightarrow> Done (0, Some (ErrMsg (tcpip_String e)))
            | Inr n64 \<Rightarrow> Done (n64, None)))"

text \<open>
  \<open>ep_Read\<close> lists what successive \<^verbatim>\<open>ep.Read\<close> calls return. \<^verbatim>\<open>RecvSeg\<close> reads again
  after every readable event while the answer is \<^verbatim>\<open>ErrWouldBlock\<close>; when the list is used up
  no further event arrives and the call stays blocked.
\<close>

fun ep_Read_until_ready :: "(tcpip_Error + int) list \<Rightarrow> (tcpip_Error + int) option" where
  "ep_Read_until_ready [] = None"
| "ep_Read_until_ready (r # rs) =
     (if r = Inl ErrWouldBlock then ep_Read_until_ready rs else Some r)"

definition RecvSeg ::
  "TCPStackGvisor \<Rightarrow> TCPStackGvisor \<Rightarrow> (tcpip_Error + int) list \<Rightarrow> (int \<times> error option) progress" where
  "RecvSeg s s' ep_Read =
     (if \<not> passes_init_gate s s' then Blocked
      else (case ep_Read_until_ready ep_Read of
              None \<Rightarrow> Blocked
            | Some (Inl ErrClosedForReceive) \<Rightarrow> Done (0, Some EOF)
            | Some (Inl e) \<Rightarrow> Done (0, Some (ErrMsg (tcpip_String e)))
            | Some (Inr n) \<Rightarrow> Done (n, None)))"

text \<open>A connector whose handshake is refused by the peer, and an acceptor whose setup succeeds.\<close>

definition env_refused :: stack_env where
  "env_refused = \<lparr>NewEndpoint_err = None, Bind_err = None, Listen_err = None,
     Connect_err = Some ErrConnectStarted, LastError = Some ErrConnectionRefused\<rparr>"

definition env_listening :: stack_env where
  "env_listening = \<lparr>NewEndpoint_err = None, Bind_err = None, Listen_err = None,
     Connect_err = None, LastError = None\<rparr>"

lemma ep_Read_until_ready_closed:
  "ep_Read_until_ready (replicate k (Inl ErrWouldBlock) @ Inl ErrClosedForReceive # rest)
     = Some (Inl ErrClosedForReceive)"
  by (induction k) simp_all

lemma SendSeg_never_OpError:
  "SendSeg s s' w \<noteq> Done (n, Some (OpError op inner))"
  by (simp add: SendSeg_def split: sum.splits)

lemma RecvSeg_never_OpError:
  "RecvSeg s s' rs \<noteq> Done (n, Some (OpError op inner))"
  by (auto simp add: RecvSeg_def split: sum.splits option.splits tcpip_Error.splits)

text \<open>
  C3. A connector whose connect is refused: \<^verbatim>\<open>initConnect\<close> stores the error in
  \<^verbatim>\<open>initErr\<close> and returns without broadcasting. A \<^verbatim>\<open>SendSeg\<close> or \<^verbatim>\<open>RecvSeg\<close> that was
  waiting stays blocked, and a later one gets whatever the closed endpoint answers; neither
  returns the stored error.
\<close>

theorem initErr_not_surfaced:
  "initErr (snd (RecvRaw env_refused None NewTCPStackGvisor))
     = Some (OpError ''connect'' (ErrMsg ''connection was refused''))
   \<and> SendSeg NewTCPStackGvisor (snd (RecvRaw env_refused None NewTCPStackGvisor))
         (Inl ErrClosedForSend) = Blocked
   \<and> RecvSeg NewTCPStackGvisor (snd (RecvRaw env_refused None NewTCPStackGvisor))
         [Inl ErrClosedForReceive] = Blocked
   \<and> SendSeg (snd (RecvRaw env_refused None NewTCPStackGvisor))
         (snd (RecvRaw env_refused None NewTCPStackGvisor)) (Inl ErrClosedForSend)
       = Done (0, Some (ErrMsg ''endpoint is closed for send''))
   \<and> RecvSeg (snd (RecvRaw env_refused None NewTCPStackGvisor))
         (snd (RecvRaw env_refused None NewTCPStackGvisor)) [Inl ErrClosedForReceive]
       = Done (0, Some EOF)"
  by (simp add: RecvRaw_def env_refused_def NewTCPStackGvisor_def initBase_def initConnect_def
      SendSeg_def RecvSeg_def passes_init_gate_def)

text \<open>
  C10. Once a \<^verbatim>\<open>RecvSeg\<close> call is past the initialization gate and the endpoint answers
  \<^verbatim>\<open>ErrClosedForReceive\<close> (at once, or after any number of would-block rounds), the call
  returns count 0 with \<^verbatim>\<open>io.EOF\<close>, not the endpoint's own error text.
\<close>

theorem RecvSeg_closed_for_receive_is_EOF:
  assumes "passes_init_gate s s'"
    and "ep_Read = replicate k (Inl ErrWouldBlock) @ Inl ErrClosedForReceive # rest"
  shows "RecvSeg s s' ep_Read = Done (0, Some EOF)
         \<and> RecvSeg s s' ep_Read \<noteq> Done (0, Some (ErrMsg (tcpip_String ErrClosedForReceive)))"
  using assms by (simp add: RecvSeg_def ep_Read_until_ready_closed)

theorem RecvSeg_closed_for_receive_is_EOF_witness:
  "passes_init_gate (snd (SendRaw env_listening [] NewTCPStackGvisor))
       (snd (SendRaw env_listening [] NewTCPStackGvisor))
   \<and> RecvSeg (snd (SendRaw env_listening [] NewTCPStackGvisor))
         (snd (SendRaw env_listening [] NewTCPStackGvisor))
         [Inl ErrWouldBlock, Inl ErrWouldBlock, Inl ErrClosedForReceive, Inl ErrClosedForReceive]
       = Done (0, Some EOF)"
  using RecvSeg_closed_for_receive_is_EOF
    [of "snd (SendRaw env_listening [] NewTCPStackGvisor)"
        "snd (SendRaw env_listening [] NewTCPStackGvisor)"
        "[Inl ErrWouldBlock, Inl ErrWouldBlock, Inl ErrClosedForReceive, Inl ErrClosedForReceive]"
        2 "[Inl ErrClosedForReceive]"]
  by (simp add: passes_init_gate_def SendRaw_def env_listening_def NewTCPStackGvisor_def
      initBase_def initAccept_def numeral_2_eq_2)

section \<open>Connection registry and raw flows (\<^verbatim>\<open>listenerEth\<close>, \<^verbatim>\<open>ConnEth\<close>)\<close>

subsection \<open>Data\<close>

text \<open>
  Clock readings and durations are nanoseconds, as Go's \<^verbatim>\<open>time.Duration\<close>.
\<close>

definition Second :: int where
  "Second = 1000000000"

definition Minute :: int where
  "Minute = 60 * Second"

record closedTCPInfo =
  DeleteAt :: int
  Raddr :: AddrPort
  ISN :: "32 word"

text \<open>
  The listener: its address, the live map \<^verbatim>\<open>conns\<close> from remote address to ISN, and the
  slice \<^verbatim>\<open>closedConns\<close> of retired flows.
\<close>

record listenerEth =
  addr :: AddrPort
  conns :: "AddrPort \<rightharpoonup> 32 word"
  closedConns :: "closedTCPInfo list"

type_synonym HardwareAddr = "byte list"

record net_Interface =
  Index :: nat
  Name :: string

text \<open>A route-table entry; \<^verbatim>\<open>Next.IsValid()\<close> is false for the zero address \<open>[]\<close>.\<close>

record route_Entry =
  Next :: Addr
  Interface :: nat
  EntryAddr :: Addr

text \<open>
  The link-layer handle \<^verbatim>\<open>*eth.Conn\<close>: the interface it is bound to, the endpoint filter
  attached to it (protocol, remote, local), whether it is closed.
\<close>

record eth_Conn =
  eth_ifi :: net_Interface
  endpoint_filter :: "(nat \<times> AddrPort \<times> AddrPort) option"
  eth_closed :: bool

record ConnEth =
  laddr :: AddrPort
  raddr :: AddrPort
  isn :: "32 word"
  tcp :: "TCPListener option"
  raw :: "eth_Conn option"
  ipstack :: "(Addr \<times> Addr \<times> nat) option"
  gateway :: HardwareAddr
  closeFn :: bool

definition TCPProtocolNumber :: nat where
  "TCPProtocolNumber = 6"

text \<open>
  \<^verbatim>\<open>closeFn\<close> is either nil or the listener's \<^verbatim>\<open>deleteConn\<close>; the flag says which.
\<close>

definition newConnectEth :: "AddrPort \<Rightarrow> AddrPort \<Rightarrow> 32 word \<Rightarrow> bool \<Rightarrow> ConnEth" where
  "newConnectEth la ra i closeCall =
     \<lparr>laddr = la, raddr = ra, isn = i, tcp = None, raw = None, ipstack = None,
      gateway = [], closeFn = closeCall\<rparr>"

subsection \<open>The retired queue: \<^verbatim>\<open>deleteConn\<close> and \<^verbatim>\<open>purgeDeleted\<close>\<close>

text \<open>
  \<^verbatim>\<open>sort.Slice\<close> is given the closure
  \<^verbatim>\<open>func(i, j int) bool { it := l.closedConns[i].DeleteAt; jt := l.closedConns[i].DeleteAt; return it.After(jt) }\<close>,
  which reads index \<open>i\<close> twice. The sort itself is the standard library's; it is modelled
  by the insertion sort that \<^verbatim>\<open>sort.Slice\<close> runs on slices of up to 12 elements
  (\<^verbatim>\<open>for i := 1; i < n; i++ { for j := i; j > 0 && less(j, j-1); j-- { swap(j, j-1) } }\<close>).
\<close>

definition closedLess :: "closedTCPInfo list \<Rightarrow> nat \<Rightarrow> nat \<Rightarrow> bool" where
  "closedLess cs i j = (let it = DeleteAt (cs ! i); jt = DeleteAt (cs ! i) in it > jt)"

definition swap_at :: "'a list \<Rightarrow> nat \<Rightarrow> nat \<Rightarrow> 'a list" where
  "swap_at xs i j = xs[i := xs ! j, j := xs ! i]"

fun sift_down :: "('a list \<Rightarrow> nat \<Rightarrow> nat \<Rightarrow> bool) \<Rightarrow> nat \<Rightarrow> 'a list \<Rightarrow> 'a list" where
  "sift_down lt 0 xs = xs"
| "sift_down lt (Suc j) xs =
     (if lt xs (Suc j) j then sift_down lt j (swap_at xs (Suc j) j) else xs)"

definition sort_Slice :: "('a list \<Rightarrow> nat \<Rightarrow> nat \<Rightarrow> bool) \<Rightarrow> 'a list \<Rightarrow> 'a list" where
  "sort_Slice lt xs = foldl (\<lambda>ys i. sift_down lt i ys) xs [1..<length xs]"

definition deleteConn :: "int \<Rightarrow> AddrPort \<Rightarrow> 32 word \<Rightarrow> listenerEth \<Rightarrow> listenerEth" where
  "deleteConn now ra i l =
     l\<lparr>closedConns :=
         sort_Slice closedLess (closedConns l @ [\<lparr>DeleteAt = now, Raddr = ra, ISN = i\<rparr>])\<rparr>"

text \<open>
  \<^verbatim>\<open>purgeDeleted\<close> walks the slice from its last index down. Reading index \<open>i\<close> of a slice
  of length at most \<open>i\<close>, and slicing to the negative bound \<open>i - 1\<close>, are run-time panics;
  the listener is returned as the panic leaves it.
\<close>

function purge_loop :: "int \<Rightarrow> int \<Rightarrow> listenerEth \<Rightarrow> string option \<times> listenerEth" where
  "purge_loop now i l =
     (if \<not> 0 \<le> i then (None, l)
      else if int (length (closedConns l)) \<le> i then (Some ''index out of range'', l)
      else
        let c = closedConns l ! nat i in
        if now - DeleteAt c > Minute then
          let l1 = (case conns l (Raddr c) of
                      Some i' \<Rightarrow> if i' = ISN c then l\<lparr>conns := (conns l)(Raddr c := None)\<rparr> else l
                    | None \<Rightarrow> l)
          in if i - 1 < 0 then (Some ''slice bounds out of range'', l1)
             else purge_loop now (i - 1)
                    (l1\<lparr>closedConns := take (nat (i - 1)) (closedConns l1)\<rparr>)
        else (None, l))"
  by pat_completeness auto
termination
  by (relation "measure (\<lambda>(now, i, l). nat (i + 1))") auto

definition purgeDeleted :: "int \<Rightarrow> listenerEth \<Rightarrow> string option \<times> listenerEth" where
  "purgeDeleted now l = purge_loop now (int (length (closedConns l)) - 1) l"

subsection \<open>Flow setup: \<^verbatim>\<open>ConnEth.init\<close> and \<^verbatim>\<open>ConnEth.Close\<close>\<close>

text \<open>
  The outcomes of the calls that \<^verbatim>\<open>init\<close> and \<^verbatim>\<open>Close\<close> make outside the repository's
  sources. \<open>nil_raw_Interface\<close> is what \<^verbatim>\<open>c.raw.Interface()\<close> yields while \<^verbatim>\<open>c.raw\<close> is nil
  (\<^verbatim>\<open>eth.Conn\<close> is not among the sources): \<open>None\<close> for a nil-pointer panic.
\<close>

record init_env =
  GetBestInterface :: "error + route_Entry"
  InterfaceByIndex :: "error + net_Interface"
  nil_raw_Interface :: "net_Interface option"
  arp_Dial :: "error option"
  arp_SetDeadline :: "error option"
  arp_Resolve :: "error + HardwareAddr"
  eth_Listen :: "error option"
  SetRawBPF :: "error option"
  ipstack_New :: "error option"
  tcp_Close :: "error option"
  raw_Close :: "error option"

text \<open>
  The external calls of one \<^verbatim>\<open>init\<close>, in the order made. \<open>EvRawInterface b\<close> is the
  evaluation of \<^verbatim>\<open>c.raw.Interface()\<close>, with \<open>b\<close> telling whether \<^verbatim>\<open>c.raw\<close> was set;
  \<open>EvArpSetDeadline d\<close> is \<^verbatim>\<open>client.SetDeadline(time.Now().Add(d))\<close>.
\<close>

datatype init_event =
    EvGetBestInterface Addr
  | EvInterfaceByIndex nat
  | EvRawInterface bool
  | EvArpDial
  | EvArpSetDeadline int
  | EvArpResolve Addr
  | EvArpClose
  | EvEthListen
  | EvSetRawBPF nat AddrPort AddrPort
  | EvIPStackNew

text \<open>
  The body of \<^verbatim>\<open>init\<close> (the same statements in \<^verbatim>\<open>ConnEth.init\<close> and \<^verbatim>\<open>Conn.init\<close>),
  in three parts that follow the source from its end to its start: result, flow and trace.
  \<^verbatim>\<open>defer client.Close()\<close> runs when the function leaves, so \<open>EvArpClose\<close> ends the trace
  of every run that dialled.

  Last part, "create eth conn and set bpf filter": \<^verbatim>\<open>eth.Listen\<close>, \<^verbatim>\<open>bpf.SetRawBPF\<close> with
  the endpoint filter, \<^verbatim>\<open>ipstack.New\<close>.
\<close>

definition init_open ::
  "init_env \<Rightarrow> ConnEth \<Rightarrow> net_Interface \<Rightarrow> init_event list
     \<Rightarrow> error option progress \<times> ConnEth \<times> init_event list" where
  "init_open env c ifi pre =
     (case eth_Listen env of
        Some err \<Rightarrow> (Done (Some err), c\<lparr>raw := None\<rparr>, pre @ [EvEthListen, EvArpClose])
      | None \<Rightarrow>
          let c2 = c\<lparr>raw := Some \<lparr>eth_ifi = ifi, endpoint_filter = None, eth_closed = False\<rparr>\<rparr>;
              pre2 = pre @ [EvEthListen, EvSetRawBPF TCPProtocolNumber (raddr c) (laddr c)]
          in (case SetRawBPF env of
                Some err \<Rightarrow> (Done (Some err), c2, pre2 @ [EvArpClose])
              | None \<Rightarrow>
                  let c3 = c2\<lparr>raw := Some \<lparr>eth_ifi = ifi,
                               endpoint_filter = Some (TCPProtocolNumber, raddr c, laddr c),
                               eth_closed = False\<rparr>\<rparr>
                  in (case ipstack_New env of
                        Some err \<Rightarrow> (Done (Some err), c3, pre2 @ [EvIPStackNew, EvArpClose])
                      | None \<Rightarrow>
                          (Done None,
                           c3\<lparr>ipstack := Some (fst (laddr c), fst (raddr c), TCPProtocolNumber)\<rparr>,
                           pre2 @ [EvIPStackNew, EvArpClose]))))"

text \<open>
  Middle part, "get gateway hardware address": \<^verbatim>\<open>arp.Dial(c.raw.Interface())\<close>, the 3-second
  deadline, \<^verbatim>\<open>client.Resolve(entry.Next)\<close>; then the last part.
\<close>

definition init_arp ::
  "init_env \<Rightarrow> ConnEth \<Rightarrow> route_Entry \<Rightarrow> net_Interface \<Rightarrow> init_event list
     \<Rightarrow> error option progress \<times> ConnEth \<times> init_event list" where
  "init_arp env c entry ifi pre0 =
     (let pre = pre0 @ [EvRawInterface (raw c \<noteq> None)] in
      case (case raw c of Some h \<Rightarrow> Some (eth_ifi h) | None \<Rightarrow> nil_raw_Interface env) of
        None \<Rightarrow> (Panic ''nil pointer dereference'', c, pre)
      | Some arp_ifi \<Rightarrow>
          (case arp_Dial env of
             Some err \<Rightarrow> (Done (Some (OpError ''stack'' err)), c, pre @ [EvArpDial])
           | None \<Rightarrow>
               (case arp_SetDeadline env of
                  Some err \<Rightarrow>
                    (Done (Some (OpError ''stack'' err)), c,
                     pre @ [EvArpDial, EvArpSetDeadline (3 * Second), EvArpClose])
                | None \<Rightarrow>
                    (case arp_Resolve env of
                       Inl err \<Rightarrow>
                         (Done (Some (OpError ''stack'' err)), c,
                          pre @ [EvArpDial, EvArpSetDeadline (3 * Second),
                                 EvArpResolve (Next entry), EvArpClose])
                     | Inr hw \<Rightarrow>
                         init_open env (c\<lparr>gateway := hw\<rparr>) ifi
                           (pre @ [EvArpDial, EvArpSetDeadline (3 * Second),
                                   EvArpResolve (Next entry)])))))"

text \<open>First part: the route lookup, the loopback refusal, \<^verbatim>\<open>net.InterfaceByIndex\<close>.\<close>

definition init_steps ::
  "init_env \<Rightarrow> ConnEth \<Rightarrow> error option progress \<times> ConnEth \<times> init_event list" where
  "init_steps env c =
     (case GetBestInterface env of
        Inl err \<Rightarrow> (Done (Some err), c, [EvGetBestInterface (fst (raddr c))])
      | Inr entry \<Rightarrow>
          if Next entry = [] then
            (Done (Some ErrLoopback), c, [EvGetBestInterface (fst (raddr c))])
          else
            (case InterfaceByIndex env of
               Inl err \<Rightarrow>
                 (Done (Some (OpError ''stack'' err)), c,
                  [EvGetBestInterface (fst (raddr c)), EvInterfaceByIndex (Interface entry)])
             | Inr ifi \<Rightarrow>
                 init_arp env c entry ifi
                   [EvGetBestInterface (fst (raddr c)), EvInterfaceByIndex (Interface entry)]))"

text \<open>
  \<^verbatim>\<open>ConnEth.Close\<close> closes the port guard and the link-layer handle if it holds them and
  then calls \<^verbatim>\<open>closeFn\<close>, which for a flow made by \<^verbatim>\<open>Accept\<close> is the listener's
  \<^verbatim>\<open>deleteConn\<close>. The last error wins; \<^verbatim>\<open>deleteConn\<close> returns nil.
\<close>

definition ConnEth_Close ::
  "init_env \<Rightarrow> int \<Rightarrow> ConnEth \<Rightarrow> listenerEth \<Rightarrow> error option \<times> ConnEth \<times> listenerEth" where
  "ConnEth_Close env now c l =
     (let err1 = (if tcp c \<noteq> None then tcp_Close env else None);
          err2 = (if raw c \<noteq> None \<and> raw_Close env \<noteq> None then raw_Close env else err1);
          c' = c\<lparr>tcp := map_option (\<lambda>t. t\<lparr>closed := True\<rparr>) (tcp c),
                 raw := map_option (\<lambda>h. h\<lparr>eth_closed := True\<rparr>) (raw c)\<rparr>
      in (err2, c', if closeFn c then deleteConn now (raddr c) (isn c) l else l))"

text \<open>
  \<^verbatim>\<open>ConnEth.init\<close>: the body, then the deferred
  \<^verbatim>\<open>func() { if err != nil { c.Close() } }\<close>. During a panic the named result is still
  nil, so the deferred function closes nothing.
\<close>

definition ConnEth_init ::
  "init_env \<Rightarrow> int \<Rightarrow> ConnEth \<Rightarrow> listenerEth
     \<Rightarrow> error option progress \<times> ConnEth \<times> listenerEth \<times> init_event list" where
  "ConnEth_init env now c l =
     (case init_steps env c of
        (Done (Some err), c1, tr) \<Rightarrow>
          (case ConnEth_Close env now c1 l of
             (_, c2, l') \<Rightarrow> (Done (Some err), c2, l', tr))
      | (r, c1, tr) \<Rightarrow> (r, c1, l, tr))"

subsection \<open>\<^verbatim>\<open>listenerEth.Accept\<close>\<close>

text \<open>
  Modelled from the spec: \<^verbatim>\<open>tcpSynSizeRange\<close> is not among the sources. Its first result
  is "the minimum valid IPv4/IPv6 + TCP header size": 20 + 20 bytes for IPv4, 40 + 20 for
  IPv6.
\<close>

definition tcpSynSizeRange_min :: "bool \<Rightarrow> int" where
  "tcpSynSizeRange_min is4 = (if is4 then 20 + 20 else 40 + 20)"

definition Is4 :: "Addr \<Rightarrow> bool" where
  "Is4 a = (length a = 4)"

text \<open>
  One successful \<^verbatim>\<open>l.raw.Read\<close>: the clock when it returned, the byte count \<open>n\<close>, and what
  the \<^verbatim>\<open>header\<close> accessors of gVisor read from the bytes: \<^verbatim>\<open>header.IPVersion(ip)\<close>,
  \<^verbatim>\<open>iphdr.SourceAddress().As4()\<close>, \<^verbatim>\<open>tcphdr.SourcePort()\<close>, \<^verbatim>\<open>tcphdr.SequenceNumber()\<close>.
\<close>

record capture =
  cap_at :: int
  cap_n :: int
  cap_version :: int
  cap_src :: Addr
  cap_sport :: "16 word"
  cap_seq :: "32 word"

text \<open>
  \<^verbatim>\<open>Accept\<close> over the results of the successive reads of the raw socket; with none left
  the read blocks. It returns Go's pair (flow, error), the listener afterwards and the
  reads not consumed.
\<close>

fun Accept ::
  "init_env \<Rightarrow> listenerEth \<Rightarrow> (error + capture) list
     \<Rightarrow> (ConnEth option \<times> error option) progress \<times> listenerEth \<times> (error + capture) list" where
  "Accept env l [] = (Blocked, l, [])"
| "Accept env l (Inl err # rest) = (Done (None, Some err), l, rest)"
| "Accept env l (Inr p # rest) =
     (if cap_n p < tcpSynSizeRange_min (Is4 (fst (addr l))) then
        (Done (None, Some (ErrInvalidPacket (cap_n p))), l, rest)
      else
        (case purgeDeleted (cap_at p) l of
           (Some msg, l1) \<Rightarrow> (Panic msg, l1, rest)
         | (None, l1) \<Rightarrow>
             if cap_version p = 4 \<or> cap_version p = 6 then
               let ra = (cap_src p, cap_sport p);
                   i = cap_seq p;
                   newConn = (case conns l1 ra of None \<Rightarrow> True | Some old \<Rightarrow> old \<noteq> i)
               in if newConn then
                    (case ConnEth_init env (cap_at p)
                            (newConnectEth (addr l1) ra i True)
                            (l1\<lparr>conns := (conns l1)(ra \<mapsto> i)\<rparr>) of
                       (Done e, c, l2, _) \<Rightarrow> (Done (Some c, e), l2, rest)
                     | (Panic msg, _, l2, _) \<Rightarrow> (Panic msg, l2, rest)
                     | (Blocked, _, l2, _) \<Rightarrow> (Blocked, l2, rest))
                  else Accept env l1 rest
             else Accept env l1 rest))"

subsection \<open>Concrete listeners, environments and packets\<close>

definition l0 :: listenerEth where
  "l0 = \<lparr>addr = ([10, 0, 0, 1], 80), conns = Map.empty, closedConns = []\<rparr>"

text \<open>An environment in which every call of \<^verbatim>\<open>init\<close> succeeds, for an off-link next hop.\<close>

definition env_ok :: init_env where
  "env_ok =
     \<lparr>GetBestInterface = Inr \<lparr>Next = [10, 0, 0, 254], Interface = 2, EntryAddr = [10, 0, 0, 1]\<rparr>,
      InterfaceByIndex = Inr \<lparr>Index = 2, Name = ''eth0''\<rparr>,
      nil_raw_Interface = Some \<lparr>Index = 0, Name = []\<rparr>,
      arp_Dial = None, arp_SetDeadline = None, arp_Resolve = Inr [2, 0, 0, 0, 0, 1],
      eth_Listen = None, SetRawBPF = None, ipstack_New = None,
      tcp_Close = None, raw_Close = None\<rparr>"

text \<open>The same, with \<^verbatim>\<open>c.raw.Interface()\<close> panicking on the nil handle.\<close>

definition env_nil_panics :: init_env where
  "env_nil_panics = env_ok\<lparr>nil_raw_Interface := None\<rparr>"

definition remote1 :: AddrPort where
  "remote1 = ([10, 0, 0, 2], 12345)"

text \<open>A 40-byte IPv4 SYN from \<open>remote1\<close> read at time \<open>t\<close> with sequence number \<open>i\<close>.\<close>

definition syn :: "int \<Rightarrow> 32 word \<Rightarrow> error + capture" where
  "syn t i = Inr \<lparr>cap_at = t, cap_n = 40, cap_version = 4, cap_src = [10, 0, 0, 2],
                  cap_sport = 12345, cap_seq = i\<rparr>"

definition short_read :: "error + capture" where
  "short_read = Inr \<lparr>cap_at = 0, cap_n = 20, cap_version = 4, cap_src = [10, 0, 0, 2],
                     cap_sport = 12345, cap_seq = 1\<rparr>"

text \<open>The identity of the flow a call returned, if it returned one.\<close>

fun accepted :: "(ConnEth option \<times> error option) progress \<Rightarrow> (AddrPort \<times> 32 word) option" where
  "accepted (Done (Some c, e)) = Some (raddr c, isn c)"
| "accepted r = None"

text \<open>Three flows retired one second apart, then a prune when all three have expired.\<close>

definition l_three_closed :: listenerEth where
  "l_three_closed =
     deleteConn (2 * Second) ([10, 0, 0, 2], 3) 9
       (deleteConn (1 * Second) ([10, 0, 0, 2], 2) 8
          (deleteConn 0 ([10, 0, 0, 2], 1) 7 l0))"

text \<open>
  The listener after it accepted the flow \<open>(remote1, 7)\<close> and that flow closed at time 0.
\<close>

definition l_retired :: listenerEth where
  "l_retired = deleteConn 0 remote1 7 (l0\<lparr>conns := [remote1 \<mapsto> 7]\<rparr>)"

text \<open>
  Three \<^verbatim>\<open>Accept\<close> calls on the reads SYN(ISN 1), SYN(ISN 2), SYN(ISN 1) from one remote.
\<close>

definition run1 where
  "run1 = Accept env_ok l0 [syn 0 1, syn 1 2, syn 2 1]"

definition run2 where
  "run2 = Accept env_ok (fst (snd run1)) (snd (snd run1))"

definition run3 where
  "run3 = Accept env_ok (fst (snd run2)) (snd (snd run2))"

subsection \<open>Properties of the retired queue\<close>

declare purge_loop.simps [simp del]

lemma closedLess_False: "closedLess cs i j = False"
  by (simp add: closedLess_def)

lemma sift_down_closedLess: "sift_down closedLess j xs = xs"
  by (cases j) (simp_all add: closedLess_False)

lemma sort_Slice_closedLess: "sort_Slice closedLess xs = xs"
proof -
  have "foldl (\<lambda>ys i. sift_down closedLess i ys) xs is = xs" for "is"
    by (induction "is") (simp_all add: sift_down_closedLess)
  then show ?thesis by (simp add: sort_Slice_def)
qed

lemma closedConns_deleteConn:
  "closedConns (deleteConn now ra i l) = closedConns l @ [\<lparr>DeleteAt = now, Raddr = ra, ISN = i\<rparr>]"
  by (simp add: deleteConn_def sort_Slice_closedLess)

lemma conns_deleteConn: "conns (deleteConn now ra i l) = conns l"
  by (simp add: deleteConn_def)

lemma addr_deleteConn: "addr (deleteConn now ra i l) = addr l"
  by (simp add: deleteConn_def)

lemma purge_loop_prefix:
  "prefix (closedConns (snd (purge_loop now i l))) (closedConns l)"
proof (induction now i l rule: purge_loop.induct)
  case (1 now i l)
  show ?case
  proof (cases "0 \<le> i \<and> i < int (length (closedConns l)) \<and> now - DeleteAt (closedConns l ! nat i) > Minute \<and> \<not> i - 1 < 0")
    case False
    then show ?thesis
      by (subst purge_loop.simps) (auto simp: Let_def split: option.splits)
  next
    case True
    define l1 where "l1 = (case conns l (Raddr (closedConns l ! nat i)) of
                      Some i' \<Rightarrow> if i' = ISN (closedConns l ! nat i) then l\<lparr>conns := (conns l)(Raddr (closedConns l ! nat i) := None)\<rparr> else l
                    | None \<Rightarrow> l)"
    have cl: "closedConns l1 = closedConns l"
      by (simp add: l1_def split: option.splits)
    have step: "purge_loop now i l = purge_loop now (i - 1) (l1\<lparr>closedConns := take (nat (i - 1)) (closedConns l1)\<rparr>)"
      using True by (subst purge_loop.simps) (simp add: Let_def l1_def)
    have "prefix (closedConns (snd (purge_loop now (i - 1) (l1\<lparr>closedConns := take (nat (i - 1)) (closedConns l1)\<rparr>))))
            (closedConns (l1\<lparr>closedConns := take (nat (i - 1)) (closedConns l1)\<rparr>))"
      using True by (intro "1.IH") (auto simp: l1_def)
    then have "prefix (closedConns (snd (purge_loop now i l))) (take (nat (i - 1)) (closedConns l))"
      by (simp add: step cl)
    then show ?thesis
      using take_is_prefix prefix_order.order_trans by blast
  qed
qed

lemma purgeDeleted_Nil: "closedConns l = [] \<Longrightarrow> purgeDeleted now l = (None, l)"
  by (simp add: purgeDeleted_def purge_loop.simps)

lemma purgeDeleted_fresh:
  assumes "closedConns l \<noteq> []" and "now - DeleteAt (last (closedConns l)) \<le> Minute"
  shows "purgeDeleted now l = (None, l)"
proof -
  have "nat (int (length (closedConns l)) - 1) = length (closedConns l) - 1" by simp
  then have "closedConns l ! nat (int (length (closedConns l)) - 1) = last (closedConns l)"
    using assms(1) by (simp add: last_conv_nth)
  then show ?thesis
    using assms by (simp add: purgeDeleted_def purge_loop.simps [of now "int (length (closedConns l)) - 1" l] Let_def)
qed

lemma purge_loop_short:
  "0 \<le> i \<Longrightarrow> int (length (closedConns l)) \<le> i \<Longrightarrow> purge_loop now i l = (Some ''index out of range'', l)"
  by (simp add: purge_loop.simps)

lemma purgeDeleted_expired_panics:
  assumes "closedConns l \<noteq> []" and "now - DeleteAt (last (closedConns l)) > Minute"
  shows "fst (purgeDeleted now l) \<noteq> None"
proof -
  let ?i = "int (length (closedConns l)) - 1"
  have nth: "closedConns l ! nat ?i = last (closedConns l)"
    using assms(1) by (simp add: last_conv_nth nat_diff_distrib')
  have i0: "0 \<le> ?i" "\<not> int (length (closedConns l)) \<le> ?i" using assms(1) by auto
  define l1 where "l1 = (case conns l (Raddr (last (closedConns l))) of
                      Some i' \<Rightarrow> if i' = ISN (last (closedConns l)) then l\<lparr>conns := (conns l)(Raddr (last (closedConns l)) := None)\<rparr> else l
                    | None \<Rightarrow> l)"
  show ?thesis
  proof (cases "?i - 1 < 0")
    case True
    then show ?thesis
      using assms i0 nth
      by (simp add: purgeDeleted_def purge_loop.simps [of now ?i l] Let_def)
  next
    case False
    have "purge_loop now ?i l = purge_loop now (?i - 1) (l1\<lparr>closedConns := take (nat (?i - 1)) (closedConns l1)\<rparr>)"
      using assms i0 nth False
      by (simp add: purge_loop.simps [of now ?i l] Let_def l1_def)
    also have "\<dots> = (Some ''index out of range'', l1\<lparr>closedConns := take (nat (?i - 1)) (closedConns l1)\<rparr>)"
      using False by (intro purge_loop_short) auto
    finally show ?thesis by (simp add: purgeDeleted_def)
  qed
qed

lemma purgeDeleted_returns_unchanged:
  "purgeDeleted now l = (None, l') \<Longrightarrow> l' = l"
proof (cases "closedConns l = []")
  case True
  assume "purgeDeleted now l = (None, l')"
  then show ?thesis using True by (simp add: purgeDeleted_Nil)
next
  case False
  assume a: "purgeDeleted now l = (None, l')"
  show ?thesis
  proof (cases "now - DeleteAt (last (closedConns l)) > Minute")
    case True
    then show ?thesis using purgeDeleted_expired_panics [OF False True] a by simp
  next
    case False
    then show ?thesis using purgeDeleted_fresh [OF \<open>closedConns l \<noteq> []\<close>, of now] a by simp
  qed
qed


subsection \<open>Properties of \<^verbatim>\<open>Accept\<close>\<close>

lemma Accept_live_discards:
  assumes "tcpSynSizeRange_min (Is4 (fst (addr l))) \<le> cap_n p"
    and "cap_version p = 4 \<or> cap_version p = 6"
    and "conns l (cap_src p, cap_sport p) = Some (cap_seq p)"
    and "closedConns l = [] \<or> cap_at p - DeleteAt (last (closedConns l)) \<le> Minute"
  shows "Accept env l (Inr p # rest) = Accept env l rest"
proof -
  have "purgeDeleted (cap_at p) l = (None, l)"
    using assms(4) purgeDeleted_Nil purgeDeleted_fresh by blast
  then show ?thesis using assms(1-3) by (auto simp: Let_def)
qed

lemma Accept_new_identity:
  assumes "tcpSynSizeRange_min (Is4 (fst (addr l))) \<le> cap_n p"
    and "cap_version p = 4 \<or> cap_version p = 6"
    and "conns l (cap_src p, cap_sport p) \<noteq> Some (cap_seq p)"
    and "closedConns l = []"
    and "init_steps env (newConnectEth (addr l) (cap_src p, cap_sport p) (cap_seq p) True)
           = (Done None, c, tr)"
  shows "Accept env l (Inr p # rest)
           = (Done (Some c, None), l\<lparr>conns := (conns l)((cap_src p, cap_sport p) \<mapsto> cap_seq p)\<rparr>, rest)"
proof -
  have "purgeDeleted (cap_at p) l = (None, l)"
    using assms(4) by (rule purgeDeleted_Nil)
  then show ?thesis
    using assms(1-3,5) by (auto simp: Let_def ConnEth_init_def split: option.splits)
qed

text \<open>
  C5 (as the code has it). A read that returns fewer bytes than the minimum makes
  \<^verbatim>\<open>Accept\<close> return at once to its caller with the invalid-packet error: no flow, the
  listener unchanged, the following packets unread.
\<close>

theorem Accept_short_packet_returns:
  "cap_n p < tcpSynSizeRange_min (Is4 (fst (addr l))) \<Longrightarrow>
     Accept env l (Inr p # rest) = (Done (None, Some (ErrInvalidPacket (cap_n p))), l, rest)"
  by simp

theorem Accept_short_packet_returns_witness:
  "(20::int) < tcpSynSizeRange_min (Is4 (fst (addr l0)))
   \<and> Accept env_ok l0 [short_read, syn 1 1]
       = (Done (None, Some (ErrInvalidPacket 20)), l0, [syn 1 1])"
  using Accept_short_packet_returns
    [of "\<lparr>cap_at = 0, cap_n = 20, cap_version = 4, cap_src = [10, 0, 0, 2],
          cap_sport = 12345, cap_seq = 1\<rparr>" l0 env_ok "[syn 1 1]"]
  by (simp add: short_read_def tcpSynSizeRange_min_def Is4_def l0_def)

text \<open>
  The claim as stated fails: after the short read, \<^verbatim>\<open>Accept\<close> has returned an error and left
  the valid SYN behind it unread, where continuing would have returned that SYN's flow.
\<close>

theorem Accept_short_packet_counterexample:
  "fst (Accept env_ok l0 [short_read, syn 1 1]) = Done (None, Some (ErrInvalidPacket 20))
   \<and> snd (snd (Accept env_ok l0 [short_read, syn 1 1])) = [syn 1 1]
   \<and> accepted (fst (Accept env_ok l0 [short_read, syn 1 1])) = None
   \<and> accepted (fst (Accept env_ok l0 [syn 1 1])) = Some (remote1, 1)"
  by (simp add: short_read_def syn_def tcpSynSizeRange_min_def Is4_def l0_def purgeDeleted_Nil
      ConnEth_init_def init_steps_def init_arp_def init_open_def env_ok_def newConnectEth_def
      remote1_def Let_def)

text \<open>
  C6 (as the code has it). A close notification adds exactly one record to the retired
  queue and drops none, and a prune pass removes records only from the back of the queue:
  what it leaves is a prefix of what it found.
\<close>

theorem retired_queue_grows_by_one_and_is_pruned_from_the_back:
  "mset (closedConns (deleteConn now ra i l))
     = mset (closedConns l) + {#\<lparr>DeleteAt = now, Raddr = ra, ISN = i\<rparr>#}
   \<and> prefix (closedConns (snd (purgeDeleted now' l))) (closedConns l)"
  by (simp add: closedConns_deleteConn purgeDeleted_def purge_loop_prefix)

text \<open>
  The claim as stated fails: with three expired records the prune pass takes the two
  records at the back, the newest, and leaves the front one, the oldest.
\<close>

theorem prune_from_front_counterexample:
  "closedConns l_three_closed =
     [\<lparr>DeleteAt = 0, Raddr = ([10, 0, 0, 2], 1), ISN = 7\<rparr>,
      \<lparr>DeleteAt = 1 * Second, Raddr = ([10, 0, 0, 2], 2), ISN = 8\<rparr>,
      \<lparr>DeleteAt = 2 * Second, Raddr = ([10, 0, 0, 2], 3), ISN = 9\<rparr>]
   \<and> closedConns (snd (purgeDeleted (5 * Minute) l_three_closed)) =
     [\<lparr>DeleteAt = 0, Raddr = ([10, 0, 0, 2], 1), ISN = 7\<rparr>]"
  by (simp add: l_three_closed_def closedConns_deleteConn conns_deleteConn l0_def purgeDeleted_def
      purge_loop.simps Minute_def Second_def Let_def)

text \<open>
  C4. A flow was accepted and closed at time 0. A SYN with its identity read 61 seconds
  later makes the prune pass take the record's map entry and then panic on the slice
  bound \<open>0 - 1\<close>, and \<^verbatim>\<open>Accept\<close> panics with it; the record stays in the queue, so the
  next \<^verbatim>\<open>Accept\<close> panics again and the identity is never accepted.
\<close>

theorem Accept_after_grace_panics:
  "closedConns l_retired = [\<lparr>DeleteAt = 0, Raddr = remote1, ISN = 7\<rparr>]
   \<and> conns l_retired remote1 = Some 7
   \<and> accepted (fst (Accept env_ok l_retired [syn (59 * Second) 7])) = None
   \<and> fst (Accept env_ok l_retired [syn (61 * Second) 7]) = Panic ''slice bounds out of range''
   \<and> conns (fst (snd (Accept env_ok l_retired [syn (61 * Second) 7]))) remote1 = None
   \<and> closedConns (fst (snd (Accept env_ok l_retired [syn (61 * Second) 7])))
       = [\<lparr>DeleteAt = 0, Raddr = remote1, ISN = 7\<rparr>]
   \<and> fst (Accept env_ok (fst (snd (Accept env_ok l_retired [syn (61 * Second) 7])))
            [syn (62 * Second) 7]) = Panic ''slice bounds out of range''"
  by (simp add: l_retired_def closedConns_deleteConn conns_deleteConn addr_deleteConn l0_def
      syn_def remote1_def
      tcpSynSizeRange_min_def Is4_def purgeDeleted_def purge_loop.simps Minute_def Second_def
      Let_def)

end
